theory Spec2Isabelle
  imports Main "HOL-Library.AList" "HOL-Library.Multiset"
begin

section \<open>Log events, strings and their UTF-8 size\<close>

text \<open>
  The repository holds the engine in several revisions. Three of them are modelled here:
  \<^item> the module \<^verbatim>\<open>index.ts\<close> in an earlier revision (\<^verbatim>\<open>src/unnamed/part_003\<close>, called
    \<^verbatim>\<open>part_003\<close> below); its functions carry the suffix \<open>_r1\<close> where they differ from
    the later one;
  \<^item> the module \<^verbatim>\<open>index.ts\<close> in a later revision (first document of
    \<^verbatim>\<open>src/unnamed/part_002\<close>, lines 1-443, called \<^verbatim>\<open>part_002\<close> below); its functions keep
    their plain names;
  \<^item> the class \<^verbatim>\<open>CloudWatchLogger\<close> (second document of \<^verbatim>\<open>src/pg/index.ts\<close>, from line
    37 on; line numbers are those of the file); its methods carry the prefix
    \<open>CloudWatchLogger_\<close>.
  The two older classes \<^verbatim>\<open>CloudWatchLogs\<close> at the end of \<^verbatim>\<open>src/unnamed/part_002\<close> are not
  modelled.

  Timestamps are integers (milliseconds).

  A JavaScript string is modelled as the list of its Unicode code points, each below
  110000 (hexadecimal); a lone surrogate is a code point between D800 and DFFF. Group and
  stream names, on which the code performs no byte-level operation, are plain
  \<open>string\<close>s.
\<close>

type_synonym jsstring = "nat list"

type_synonym bytes = "nat list"

record Log =
  timestamp :: int
  message :: jsstring

text \<open>
  \<^verbatim>\<open>Buffer.from(s)\<close> / \<^verbatim>\<open>Buffer.byteLength(s, "utf-8")\<close>: the UTF-8 encoding of a string.
  A lone surrogate is encoded as U+FFFD (EF BF BD).
\<close>

definition utf8_char :: "nat \<Rightarrow> bytes" where
  "utf8_char c =
     (if c < 0x80 then [c]
      else if c < 0x800 then [0xC0 + c div 0x40, 0x80 + c mod 0x40]
      else if 0xD800 \<le> c \<and> c < 0xE000 then [0xEF, 0xBF, 0xBD]
      else if c < 0x10000 then
        [0xE0 + c div 0x1000, 0x80 + (c div 0x40) mod 0x40, 0x80 + c mod 0x40]
      else
        [0xF0 + c div 0x40000, 0x80 + (c div 0x1000) mod 0x40,
         0x80 + (c div 0x40) mod 0x40, 0x80 + c mod 0x40])"

definition Buffer_from :: "jsstring \<Rightarrow> bytes" where
  "Buffer_from s = concat (map utf8_char s)"

definition byteLength :: "jsstring \<Rightarrow> nat" where
  "byteLength s = length (Buffer_from s)"

text \<open>
  \<^verbatim>\<open>buf.toString()\<close>: the UTF-8 decoder of the runtime. It follows the WHATWG decoder:
  a lead byte fixes how many continuation bytes are needed and the range of the first
  one; a byte outside the expected range ends the sequence, which becomes one U+FFFD,
  and is read again as a lead byte; a sequence cut off by the end of the input becomes
  one U+FFFD. The arguments of \<open>utf8_decode\<close> are the code point collected so far, the
  number of continuation bytes still needed and the bounds of the next one.
\<close>

fun utf8_decode :: "nat \<Rightarrow> nat \<Rightarrow> nat \<Rightarrow> nat \<Rightarrow> bytes \<Rightarrow> jsstring" where
  "utf8_decode cp needed lo hi [] = (if needed = 0 then [] else [0xFFFD])"
| "utf8_decode cp needed lo hi (b # bs) =
     (if needed = 0 then
        (if b < 0x80 then b # utf8_decode 0 0 0x80 0xBF bs
         else if 0xC2 \<le> b \<and> b \<le> 0xDF then utf8_decode (b mod 0x20) 1 0x80 0xBF bs
         else if 0xE0 \<le> b \<and> b \<le> 0xEF then
           utf8_decode (b mod 0x10) 2 (if b = 0xE0 then 0xA0 else 0x80)
             (if b = 0xED then 0x9F else 0xBF) bs
         else if 0xF0 \<le> b \<and> b \<le> 0xF4 then
           utf8_decode (b mod 0x08) 3 (if b = 0xF0 then 0x90 else 0x80)
             (if b = 0xF4 then 0x8F else 0xBF) bs
         else 0xFFFD # utf8_decode 0 0 0x80 0xBF bs)
      else if b < lo \<or> hi < b then 0xFFFD # utf8_decode 0 0 0x80 0xBF (b # bs)
      else if needed = 1 then (cp * 0x40 + b mod 0x40) # utf8_decode 0 0 0x80 0xBF bs
      else utf8_decode (cp * 0x40 + b mod 0x40) (needed - 1) 0x80 0xBF bs)"

definition toString :: "bytes \<Rightarrow> jsstring" where
  "toString bs = utf8_decode 0 0 0x80 0xBF bs"

section \<open>Limits\<close>

definition CLOUDWATCH_FIXED_EVENT_PREFIX :: nat where
  "CLOUDWATCH_FIXED_EVENT_PREFIX = 26"

definition CLOUDWATCH_MAX_EVENT_SIZE :: nat where
  "CLOUDWATCH_MAX_EVENT_SIZE = 2 ^ 18 - CLOUDWATCH_FIXED_EVENT_PREFIX"

definition CLOUDWTACH_MAX_BUFFER_LENGTH :: nat where
  "CLOUDWTACH_MAX_BUFFER_LENGTH = 10000"

definition CLOUDWATCH_MAX_BUFFER_SIZE :: nat where
  "CLOUDWATCH_MAX_BUFFER_SIZE = 2 ^ 20"

text \<open>\<^verbatim>\<open>logEventExceedsSize\<close> of the module (\<^verbatim>\<open>part_002\<close>, lines 154-156): \<^verbatim>\<open>>=\<close>.\<close>

definition logEventExceedsSize :: "Log \<Rightarrow> bool" where
  "logEventExceedsSize log = (byteLength (message log) \<ge> CLOUDWATCH_MAX_EVENT_SIZE)"

text \<open>\<^verbatim>\<open>CloudWatchLogger.logEventExceedsSize\<close> (\<^verbatim>\<open>src/pg/index.ts\<close>): \<^verbatim>\<open>>\<close>.\<close>

definition CloudWatchLogger_logEventExceedsSize :: "Log \<Rightarrow> bool" where
  "CloudWatchLogger_logEventExceedsSize log =
     (byteLength (message log) > CLOUDWATCH_MAX_EVENT_SIZE)"

section \<open>The buffer map\<close>

text \<open>
  \<^verbatim>\<open>bufferedLogs\<close> is a JavaScript \<^verbatim>\<open>Map\<close> from the key \<^verbatim>\<open>`${group}{::}${stream}`\<close> to
  an array of events. A \<^verbatim>\<open>Map\<close> iterates in insertion order and \<^verbatim>\<open>set\<close> on a key that is
  present keeps its place: an association list with distinct keys, \<open>map_of\<close> for
  \<^verbatim>\<open>get\<close> and \<open>AList.update\<close> for \<^verbatim>\<open>set\<close>.
\<close>

type_synonym buffers = "(string \<times> Log list) list"

definition separator :: string where
  "separator = ''{::}''"

definition buffer_key :: "string \<Rightarrow> string \<Rightarrow> string" where
  "buffer_key logGroupName logStreamName = logGroupName @ separator @ logStreamName"

definition pushLog :: "string \<Rightarrow> string \<Rightarrow> Log \<Rightarrow> buffers \<Rightarrow> buffers" where
  "pushLog logGroupName logStreamName log bufferedLogs =
     (let key = buffer_key logGroupName logStreamName;
          bufs = (if map_of bufferedLogs key = None then AList.update key [] bufferedLogs
                  else bufferedLogs)
      in case map_of bufs key of
           None \<Rightarrow> bufs
         | Some logs \<Rightarrow> AList.update key (logs @ [log]) bufs)"

text \<open>
  \<^verbatim>\<open>reachedBufferLimits\<close>, earlier revision (\<^verbatim>\<open>part_003\<close>, lines 116-138): the byte
  total is the sum of the message lengths alone.
\<close>

definition reachedBufferLimits_r1 :: "buffers \<Rightarrow> string \<Rightarrow> string \<Rightarrow> Log \<Rightarrow> bool" where
  "reachedBufferLimits_r1 bufferedLogs logGroup logStream newLog =
     (case map_of bufferedLogs (buffer_key logGroup logStream) of
        None \<Rightarrow> False
      | Some logs \<Rightarrow>
          if length logs + 1 \<ge> CLOUDWTACH_MAX_BUFFER_LENGTH then True
          else
            (let size = foldl (\<lambda>accumulator log. accumulator + byteLength (message log)) 0 logs;
                 messageSize = byteLength (message newLog)
             in size + messageSize \<ge> CLOUDWATCH_MAX_BUFFER_SIZE))"

text \<open>
  \<^verbatim>\<open>reachedBufferLimits\<close>, later revision (\<^verbatim>\<open>part_002\<close>, lines 126-152, and the method of
  \<^verbatim>\<open>CloudWatchLogger\<close>, which differs only in its debug output): every event counts with
  the fixed prefix.
\<close>

definition reachedBufferLimits :: "buffers \<Rightarrow> string \<Rightarrow> string \<Rightarrow> Log \<Rightarrow> bool" where
  "reachedBufferLimits bufferedLogs logGroup logStream newLog =
     (case map_of bufferedLogs (buffer_key logGroup logStream) of
        None \<Rightarrow> False
      | Some logs \<Rightarrow>
          if length logs + 1 \<ge> CLOUDWTACH_MAX_BUFFER_LENGTH then True
          else
            (let size = foldl (\<lambda>accumulator log.
                                 accumulator + byteLength (message log)
                                   + CLOUDWATCH_FIXED_EVENT_PREFIX) 0 logs;
                 messageSize = byteLength (message newLog) + CLOUDWATCH_FIXED_EVENT_PREFIX
             in size + messageSize \<ge> CLOUDWATCH_MAX_BUFFER_SIZE))"

text \<open>
  \<^verbatim>\<open>key.split("{::}")\<close>: the substrings between the occurrences of a (non-empty)
  separator, found from left to right without overlap.
\<close>

function js_split :: "string \<Rightarrow> string \<Rightarrow> string list" where
  "js_split sep [] = [[]]"
| "js_split sep (c # cs) =
     (if sep \<noteq> [] \<and> take (length sep) (c # cs) = sep
      then [] # js_split sep (drop (length sep) (c # cs))
      else (case js_split sep cs of [] \<Rightarrow> [[c]] | p # ps \<Rightarrow> (c # p) # ps))"
  by pat_completeness auto
termination
  by (relation "measure (\<lambda>(sep, s). length s)") auto

text \<open>An array element read by destructuring is \<^verbatim>\<open>undefined\<close> past the end.\<close>

definition element :: "'a list \<Rightarrow> nat \<Rightarrow> 'a option" where
  "element xs i = (if i < length xs then Some (xs ! i) else None)"

text \<open>
  \<^verbatim>\<open>getOrderedLogs\<close> (\<^verbatim>\<open>part_002\<close>, lines 158-176; the same text in \<^verbatim>\<open>part_003\<close> and in
  \<^verbatim>\<open>CloudWatchLogger\<close>). The loop visits the entries of the map; for each it stores a
  fresh empty array under the key and appends the triple with the sorted old array.
  \<^verbatim>\<open>Array.prototype.sort\<close> is stable, as is \<open>sort_key\<close>. The result is the array
  \<^verbatim>\<open>all\<close> together with the map as the loop leaves it.
\<close>

type_synonym drained = "(string option \<times> string option \<times> Log list) list"

definition getOrderedLogs :: "buffers \<Rightarrow> drained \<times> buffers" where
  "getOrderedLogs bufferedLogs =
     foldl (\<lambda>(all, bufs) (key, value).
              (let parts = js_split separator key
               in (all @ [(element parts 0, element parts 1, sort_key timestamp value)],
                   AList.update key [] bufs)))
       ([], bufferedLogs) bufferedLogs"

section \<open>The remote client\<close>

text \<open>
  The commands the engine sends, the errors a call can throw and the client itself.
  The client is opaque: a state of type \<open>'c\<close> and a function \<open>send\<close> that answers a
  command with an error or a response (its HTTP status code) and the next state.
  The events of a \<^verbatim>\<open>PutLogEventsCommand\<close> are either a batch of buffered events or, when
  \<^verbatim>\<open>logError\<close> sends it, the one event whose message is the JSON text of a diagnostic
  record and whose timestamp is the time of the call; that event is kept as the record.
\<close>

datatype js_error =
    ServiceException string
  | Error string "js_error option"

datatype diagnostic =
    WillRetry js_error string string nat nat
  | Flushing js_error

datatype payload =
    Events "Log list"
  | Diagnostic diagnostic

datatype command =
    CreateLogGroupCommand string
  | CreateLogStreamCommand string string
  | PutLogEventsCommand string string payload

type_synonym 'c remote = "command \<Rightarrow> 'c \<Rightarrow> (js_error + nat) \<times> 'c"

definition isResourceAlreadyExistsException :: "js_error \<Rightarrow> bool" where
  "isResourceAlreadyExistsException error =
     (case error of
        ServiceException name \<Rightarrow> name = ''ResourceAlreadyExistsException''
      | Error msg cause \<Rightarrow> False)"

definition isInvalidParameterException :: "js_error \<Rightarrow> bool" where
  "isInvalidParameterException error =
     (case error of
        ServiceException name \<Rightarrow> name = ''InvalidParameterException''
      | Error msg cause \<Rightarrow> False)"

type_synonym registry = "(string \<times> string list) list"

section \<open>Timers of the runtime\<close>

text \<open>
  \<^verbatim>\<open>setInterval\<close> installs a repeating timer and returns its handle; \<^verbatim>\<open>clearInterval\<close>
  removes it. The table holds the repeating timers that are installed, each with its
  delay; the callback is always the engine's \<^verbatim>\<open>intervalCallback\<close>.
\<close>

record timer_table =
  next_handle :: nat
  active :: "(nat \<times> int) list"

definition setInterval :: "int \<Rightarrow> timer_table \<Rightarrow> nat \<times> timer_table" where
  "setInterval delay tt =
     (next_handle tt,
      tt\<lparr>next_handle := Suc (next_handle tt),
         active := active tt @ [(next_handle tt, delay)]\<rparr>)"

definition clearInterval :: "nat \<Rightarrow> timer_table \<Rightarrow> timer_table" where
  "clearInterval h tt = tt\<lparr>active := filter (\<lambda>(h', delay). h' \<noteq> h) (active tt)\<rparr>"

section \<open>The module \<^verbatim>\<open>index.ts\<close>\<close>

text \<open>
  The module's variables: \<^verbatim>\<open>client\<close> (undefined, or the client built from a
  configuration, kept as that configuration), \<^verbatim>\<open>clipMessages\<close>, the two private fields of
  \<^verbatim>\<open>flushInterval\<close>, \<^verbatim>\<open>logGroups\<close> and \<^verbatim>\<open>bufferedLogs\<close>. With them the state of the remote
  side the client talks to, the runtime's timers and its queue of \<^verbatim>\<open>setImmediate\<close>
  callbacks (each a call of \<^verbatim>\<open>pushLog\<close>, kept by its arguments), and two records of what
  was done: the commands sent through the client, and the batches handed to a \<^verbatim>\<open>flush()\<close>
  whose promise the caller did not await.
\<close>

record config =
  flushInterval :: "int option"
  region :: string

record 'c module_state =
  client :: "config option"
  clipMessages :: bool
  flushInterval_value :: int
  flushInterval_interval :: "nat option"
  logGroups :: registry
  bufferedLogs :: buffers
  remote_side :: 'c
  timers :: timer_table
  immediates :: "(string \<times> string \<times> Log) list"
  requests :: "command list"
  flushing :: "drained list"

text \<open>
  The setter of \<^verbatim>\<open>flushInterval.value\<close> (\<^verbatim>\<open>part_003\<close>, lines 67-74; the same text in
  \<^verbatim>\<open>part_002\<close>, lines 75-82).
\<close>

definition FlushInterval_set_value :: "int \<Rightarrow> 'c module_state \<Rightarrow> 'c module_state" where
  "FlushInterval_set_value v st =
     (let st1 = (case flushInterval_interval st of
                   Some h \<Rightarrow> st\<lparr>timers := clearInterval h (timers st)\<rparr>
                 | None \<Rightarrow> st);
          (h', tt) = setInterval v (timers st1)
      in st1\<lparr>timers := tt, flushInterval_interval := Some h', flushInterval_value := v\<rparr>)"

text \<open>
  \<^verbatim>\<open>setup\<close> (\<^verbatim>\<open>part_002\<close>, lines 96-108; \<^verbatim>\<open>part_003\<close>, lines 86-98), named \<open>setup_config\<close>
  here since \<open>setup\<close> is a keyword of the prover. \<^verbatim>\<open>config.flushInterval ?? 1000\<close> reads
  1000 when the field is missing.
\<close>

definition setup_config :: "config \<Rightarrow> 'c module_state \<Rightarrow> 'c module_state" where
  "setup_config cfg st =
     (if client st \<noteq> None then st
      else FlushInterval_set_value
             (case flushInterval cfg of Some v \<Rightarrow> v | None \<Rightarrow> 1000)
             (st\<lparr>client := Some cfg\<rparr>))"

text \<open>\<^verbatim>\<open>client.send(command)\<close>, for a client that is there.\<close>

definition client_send ::
  "'c remote \<Rightarrow> command \<Rightarrow> 'c module_state \<Rightarrow> (js_error + nat) \<times> 'c module_state" where
  "client_send send cmd st =
     (let (r, c') = send cmd (remote_side st)
      in (r, st\<lparr>remote_side := c', requests := requests st @ [cmd]\<rparr>))"

definition not_initialized :: js_error where
  "not_initialized = Error ''CloudWatchLogs `client` is not initialized.'' None"

text \<open>
  \<^verbatim>\<open>createLogGroup\<close> of the module (\<^verbatim>\<open>part_002\<close>, lines 195-221). The result is the
  thrown error or normal completion, with the state the call leaves.
\<close>

definition createLogGroup ::
  "'c remote \<Rightarrow> string \<Rightarrow> 'c module_state \<Rightarrow> (js_error + unit) \<times> 'c module_state" where
  "createLogGroup send logGroupName st =
     (if client st = None then (Inl not_initialized, st)
      else if map_of (logGroups st) logGroupName \<noteq> None then (Inr (), st)
      else
        (case client_send send (CreateLogGroupCommand logGroupName) st of
           (Inr result, st1) \<Rightarrow>
             (Inr (), st1\<lparr>logGroups := AList.update logGroupName [] (logGroups st1)\<rparr>)
         | (Inl error, st1) \<Rightarrow>
             if isResourceAlreadyExistsException error
             then (Inr (), st1\<lparr>logGroups := AList.update logGroupName [] (logGroups st1)\<rparr>)
             else (Inl (Error ''Create Log Group Failed'' (Some error)), st1)))"

text \<open>
  \<^verbatim>\<open>createLogStream\<close> of the module (\<^verbatim>\<open>part_002\<close>, lines 226-260). \<open>module_push_stream\<close>
  is \<^verbatim>\<open>logGroup?.push(logStreamName)\<close>, \<open>module_createLogStream_catch\<close> the \<^verbatim>\<open>catch\<close>
  block.
\<close>

definition module_push_stream :: "string \<Rightarrow> string \<Rightarrow> 'c module_state \<Rightarrow> 'c module_state" where
  "module_push_stream logGroupName logStreamName st =
     (case map_of (logGroups st) logGroupName of
        None \<Rightarrow> st
      | Some logGroup \<Rightarrow>
          st\<lparr>logGroups := AList.update logGroupName (logGroup @ [logStreamName]) (logGroups st)\<rparr>)"

definition module_createLogStream_catch ::
  "string \<Rightarrow> string \<Rightarrow> js_error \<Rightarrow> 'c module_state \<Rightarrow> (js_error + unit) \<times> 'c module_state" where
  "module_createLogStream_catch logGroupName logStreamName error st =
     (if isResourceAlreadyExistsException error
      then (Inr (), module_push_stream logGroupName logStreamName st)
      else (Inl (Error ''Create Log Stream Failed'' (Some error)), st))"

definition createLogStream ::
  "'c remote \<Rightarrow> string \<Rightarrow> string \<Rightarrow> 'c module_state \<Rightarrow> (js_error + unit) \<times> 'c module_state" where
  "createLogStream send logGroupName logStreamName st =
     (if client st = None then (Inl not_initialized, st)
      else
        (case createLogGroup send logGroupName st of
           (Inl error, st1) \<Rightarrow> module_createLogStream_catch logGroupName logStreamName error st1
         | (Inr u, st1) \<Rightarrow>
             if (case map_of (logGroups st1) logGroupName of
                   None \<Rightarrow> False
                 | Some logGroup \<Rightarrow> logStreamName \<in> set logGroup)
             then (Inr (), st1)
             else
               (case client_send send (CreateLogStreamCommand logGroupName logStreamName) st1 of
                  (Inl error, st2) \<Rightarrow>
                    module_createLogStream_catch logGroupName logStreamName error st2
                | (Inr result, st2) \<Rightarrow>
                    (Inr (), module_push_stream logGroupName logStreamName st2))))"

text \<open>
  \<^verbatim>\<open>putEventLogs\<close> of the module (\<^verbatim>\<open>part_002\<close>, lines 262-290). The throttle around it
  delays a call and changes nothing else.
\<close>

definition put_failed :: "js_error \<Rightarrow> js_error" where
  "put_failed error = Error ''Put Log Events Failed'' (Some error)"

definition putEventLogs ::
  "'c remote \<Rightarrow> string \<Rightarrow> string \<Rightarrow> Log list \<Rightarrow> 'c module_state
     \<Rightarrow> (js_error + unit) \<times> 'c module_state" where
  "putEventLogs send logGroupName logStreamName logEvents st =
     (if logEvents = [] then (Inr (), st)
      else if client st = None
      then (Inl (Error ''CloudWatchLogs client is not initialized.'' None), st)
      else
        (case createLogStream send logGroupName logStreamName st of
           (Inl error, st1) \<Rightarrow> (Inl (put_failed error), st1)
         | (Inr u, st1) \<Rightarrow>
             (case client_send send
                     (PutLogEventsCommand logGroupName logStreamName (Events logEvents)) st1 of
                (Inl error, st2) \<Rightarrow> (Inl (put_failed error), st2)
              | (Inr result, st2) \<Rightarrow> (Inr (), st2))))"

text \<open>
  The retry of the module's \<^verbatim>\<open>_flush\<close> (\<^verbatim>\<open>part_002\<close>, lines 328-337): an empty batch is
  skipped (for it the loop below returns at once as well), then
  \<^verbatim>\<open>const half = logs.length / 2\<close> and the loop
  \<^verbatim>\<open>while (logs.length) { const partial = logs.splice(0, half); await putEventLogs(...) }\<close>.
  \<^verbatim>\<open>splice\<close> truncates its count to an integer, so each round takes \<open>length logs div 2\<close>
  events, the length being that of the batch before the loop. The loop may not end, so not
  returning is the value \<open>None\<close>.
\<close>

partial_function (option) module_retry_loop ::
  "'c remote \<Rightarrow> nat \<Rightarrow> string \<Rightarrow> string \<Rightarrow> Log list \<Rightarrow> 'c module_state
     \<Rightarrow> ((js_error + unit) \<times> 'c module_state) option" where
  "module_retry_loop send half groupName streamName logs st =
     (if logs = [] then Some (Inr (), st)
      else
        (case putEventLogs send groupName streamName (take half logs) st of
           (Inl error, st1) \<Rightarrow> Some (Inl error, st1)
         | (Inr u, st1) \<Rightarrow> module_retry_loop send half groupName streamName (drop half logs) st1))"

definition module_retry ::
  "'c remote \<Rightarrow> string \<Rightarrow> string \<Rightarrow> Log list \<Rightarrow> 'c module_state
     \<Rightarrow> ((js_error + unit) \<times> 'c module_state) option" where
  "module_retry send groupName streamName logs st =
     module_retry_loop send (length logs div 2) groupName streamName logs st"

text \<open>The module as it is loaded, before any call.\<close>

definition initial_state :: "unit module_state" where
  "initial_state =
     \<lparr>client = None, clipMessages = True, flushInterval_value = 1000,
      flushInterval_interval = None, logGroups = [], bufferedLogs = [], remote_side = (),
      timers = \<lparr>next_handle = 0, active = []\<rparr>, immediates = [], requests = [],
      flushing = []\<rparr>"

definition me_south :: config where
  "me_south = \<lparr>flushInterval = Some 1000, region = ''me-south-1''\<rparr>"

text \<open>
  Clipping, as \<^verbatim>\<open>addLog\<close>, \<^verbatim>\<open>log\<close> and \<^verbatim>\<open>_flush\<close> write it:
  \<^verbatim>\<open>Buffer.from(message).subarray(0, CLOUDWATCH_MAX_EVENT_SIZE).toString()\<close>
  (\<^verbatim>\<open>slice\<close> in the module; on a \<^verbatim>\<open>Buffer\<close> the two are the same).
\<close>

definition clip_message :: "jsstring \<Rightarrow> jsstring" where
  "clip_message m = toString (take CLOUDWATCH_MAX_EVENT_SIZE (Buffer_from m))"

definition clip_record :: "Log \<Rightarrow> Log" where
  "clip_record record = record\<lparr>message := clip_message (message record)\<rparr>"

text \<open>
  \<^verbatim>\<open>flush()\<close> of the module as \<^verbatim>\<open>addLog\<close> calls it, without awaiting its promise: the
  buffers are drained at once and the drained entries go to a \<^verbatim>\<open>_flush\<close> that runs in
  the background.
\<close>

definition flush_start :: "'c module_state \<Rightarrow> 'c module_state" where
  "flush_start st =
     (let (entries, bufs) = getOrderedLogs (bufferedLogs st)
      in st\<lparr>bufferedLogs := bufs, flushing := flushing st @ [entries]\<rparr>)"

text \<open>
  \<^verbatim>\<open>addLog\<close> of the module (\<^verbatim>\<open>part_002\<close>, lines 357-383). The event is not pushed by the
  call itself: \<^verbatim>\<open>setImmediate(pushLog, ...)\<close> queues the push, and \<open>run_immediates\<close> is
  the runtime running the queue.
\<close>

definition addLog ::
  "string \<Rightarrow> string \<Rightarrow> Log \<Rightarrow> 'c module_state \<Rightarrow> js_error option \<times> 'c module_state" where
  "addLog logGroupName logStreamName log st =
     (let st1 = (if reachedBufferLimits (bufferedLogs st) logGroupName logStreamName log
                 then flush_start st else st);
          later = (\<lambda>log'. st1\<lparr>immediates :=
                                immediates st1 @ [(logGroupName, logStreamName, log')]\<rparr>)
      in if logEventExceedsSize log then
           (if clipMessages st1
            then (None, later \<lparr>timestamp = timestamp log, message = clip_message (message log)\<rparr>)
            else (Some (Error ''Log event exceeds size limit: 256Kb'' None), st1))
         else (None, later log))"

definition run_immediates :: "'c module_state \<Rightarrow> 'c module_state" where
  "run_immediates st =
     st\<lparr>bufferedLogs := foldl (\<lambda>bufs (g, s, log). pushLog g s log bufs)
                           (bufferedLogs st) (immediates st),
        immediates := []\<rparr>"

section \<open>The class \<^verbatim>\<open>CloudWatchLogger\<close>\<close>

text \<open>
  The fields of an instance (\<^verbatim>\<open>src/pg/index.ts\<close>): \<^verbatim>\<open>client\<close>,
  \<^verbatim>\<open>overSizedMessageAction\<close>, \<^verbatim>\<open>_flushInterval\<close>, \<^verbatim>\<open>flushIntervalInterval\<close>,
  \<^verbatim>\<open>logGroups\<close> and \<^verbatim>\<open>bufferedLogs\<close>. With them the state of the runtime the methods
  act on (its timers, the lines written to the console and the rejections of promises
  that nothing awaits) and three records of what was done: the commands sent through the
  client, the calls of \<^verbatim>\<open>putEventLogs\<close> with a non-empty batch (the delivery attempts),
  and the batches handed to a \<^verbatim>\<open>flush()\<close> whose promise the caller did not await.
\<close>

datatype oversized_action = ActionClip | ActionError | ActionConsole

datatype console_line = ConsoleError js_error | ConsoleInfo jsstring

record 'c logger =
  this_client :: 'c
  overSizedMessageAction :: oversized_action
  this_flushInterval :: int
  flushIntervalInterval :: "nat option"
  this_logGroups :: registry
  this_bufferedLogs :: buffers
  this_timers :: timer_table
  console :: "console_line list"
  unhandled :: "js_error list"
  sent :: "command list"
  attempts :: "(string \<times> string \<times> Log list) list"
  background :: "drained list"

record logger_config =
  cfg_flushInterval :: int
  cfg_overSizedMessageAction :: oversized_action

text \<open>The setter of \<^verbatim>\<open>flushInterval\<close> (\<^verbatim>\<open>src/pg/index.ts\<close>, lines 126-136).\<close>

definition CloudWatchLogger_set_flushInterval :: "int \<Rightarrow> 'c logger \<Rightarrow> 'c logger" where
  "CloudWatchLogger_set_flushInterval v st =
     (let st1 = (case flushIntervalInterval st of
                   Some h \<Rightarrow> st\<lparr>this_timers := clearInterval h (this_timers st)\<rparr>
                 | None \<Rightarrow> st);
          st2 = st1\<lparr>this_flushInterval := v\<rparr>;
          (h', tt) = setInterval (this_flushInterval st2) (this_timers st2)
      in st2\<lparr>this_timers := tt, flushIntervalInterval := Some h'\<rparr>)"

text \<open>
  The constructor (lines 141-146). \<open>c\<close> is the client it builds from the configuration
  and \<open>tt\<close> the timers of the runtime at that moment. The setter of \<^verbatim>\<open>flushInterval\<close>
  does not read \<^verbatim>\<open>overSizedMessageAction\<close>, which the constructor assigns after it.
\<close>

definition CloudWatchLogger_new :: "'c \<Rightarrow> timer_table \<Rightarrow> logger_config \<Rightarrow> 'c logger" where
  "CloudWatchLogger_new c tt cfg =
     CloudWatchLogger_set_flushInterval (cfg_flushInterval cfg)
       \<lparr>this_client = c, overSizedMessageAction = cfg_overSizedMessageAction cfg,
        this_flushInterval = 0, flushIntervalInterval = None, this_logGroups = [],
        this_bufferedLogs = [], this_timers = tt, console = [], unhandled = [], sent = [],
        attempts = [], background = []\<rparr>"

definition CloudWatchLogger_send ::
  "'c remote \<Rightarrow> command \<Rightarrow> 'c logger \<Rightarrow> (js_error + nat) \<times> 'c logger" where
  "CloudWatchLogger_send send cmd st =
     (let (r, c') = send cmd (this_client st)
      in (r, st\<lparr>this_client := c', sent := sent st @ [cmd]\<rparr>))"

text \<open>\<^verbatim>\<open>createLogGroup\<close> (lines 374-396).\<close>

definition CloudWatchLogger_createLogGroup ::
  "'c remote \<Rightarrow> string \<Rightarrow> 'c logger \<Rightarrow> (js_error + unit) \<times> 'c logger" where
  "CloudWatchLogger_createLogGroup send logGroupName st =
     (if map_of (this_logGroups st) logGroupName \<noteq> None then (Inr (), st)
      else
        (case CloudWatchLogger_send send (CreateLogGroupCommand logGroupName) st of
           (Inr result, st1) \<Rightarrow>
             (Inr (), st1\<lparr>this_logGroups := AList.update logGroupName [] (this_logGroups st1)\<rparr>)
         | (Inl error, st1) \<Rightarrow>
             if isResourceAlreadyExistsException error
             then (Inr (), st1\<lparr>this_logGroups :=
                                  AList.update logGroupName [] (this_logGroups st1)\<rparr>)
             else (Inl (Error ''Create Log Group Failed'' (Some error)), st1)))"

text \<open>
  \<^verbatim>\<open>createLogStream\<close> (lines 398-428). \<open>push_stream\<close> is \<^verbatim>\<open>logGroup?.push(logStreamName)\<close>:
  nothing happens when the group has no entry. \<open>createLogStream_catch\<close> is the
  \<^verbatim>\<open>catch\<close> block, which also receives what \<^verbatim>\<open>createLogGroup\<close> throws.
\<close>

definition push_stream :: "string \<Rightarrow> string \<Rightarrow> 'c logger \<Rightarrow> 'c logger" where
  "push_stream logGroupName logStreamName st =
     (case map_of (this_logGroups st) logGroupName of
        None \<Rightarrow> st
      | Some logGroup \<Rightarrow>
          st\<lparr>this_logGroups :=
               AList.update logGroupName (logGroup @ [logStreamName]) (this_logGroups st)\<rparr>)"

definition createLogStream_catch ::
  "string \<Rightarrow> string \<Rightarrow> js_error \<Rightarrow> 'c logger \<Rightarrow> (js_error + unit) \<times> 'c logger" where
  "createLogStream_catch logGroupName logStreamName error st =
     (if isResourceAlreadyExistsException error
      then (Inr (), push_stream logGroupName logStreamName st)
      else (Inl (Error ''Create Log Stream Failed'' (Some error)), st))"

definition CloudWatchLogger_createLogStream ::
  "'c remote \<Rightarrow> string \<Rightarrow> string \<Rightarrow> 'c logger \<Rightarrow> (js_error + unit) \<times> 'c logger" where
  "CloudWatchLogger_createLogStream send logGroupName logStreamName st =
     (case CloudWatchLogger_createLogGroup send logGroupName st of
        (Inl error, st1) \<Rightarrow> createLogStream_catch logGroupName logStreamName error st1
      | (Inr u, st1) \<Rightarrow>
          if (case map_of (this_logGroups st1) logGroupName of
                None \<Rightarrow> False
              | Some logGroup \<Rightarrow> logStreamName \<in> set logGroup)
          then (Inr (), st1)
          else
            (case CloudWatchLogger_send send
                    (CreateLogStreamCommand logGroupName logStreamName) st1 of
               (Inl error, st2) \<Rightarrow> createLogStream_catch logGroupName logStreamName error st2
             | (Inr result, st2) \<Rightarrow> (Inr (), push_stream logGroupName logStreamName st2)))"

text \<open>
  \<^verbatim>\<open>putEventLogs\<close> (lines 430-465). A response whose status code is not 200 makes it send
  the command once more.
\<close>

definition CloudWatchLogger_putEventLogs ::
  "'c remote \<Rightarrow> string \<Rightarrow> string \<Rightarrow> Log list \<Rightarrow> 'c logger \<Rightarrow> (js_error + unit) \<times> 'c logger" where
  "CloudWatchLogger_putEventLogs send logGroupName logStreamName logEvents st =
     (if logEvents = [] then (Inr (), st)
      else
        (case CloudWatchLogger_createLogStream send logGroupName logStreamName
                (st\<lparr>attempts := attempts st @ [(logGroupName, logStreamName, logEvents)]\<rparr>) of
           (Inl error, st1) \<Rightarrow> (Inl (put_failed error), st1)
         | (Inr u, st1) \<Rightarrow>
             (case CloudWatchLogger_send send
                     (PutLogEventsCommand logGroupName logStreamName (Events logEvents))
                     st1 of
                (Inl error, st2) \<Rightarrow> (Inl (put_failed error), st2)
              | (Inr httpStatusCode, st2) \<Rightarrow>
                  if httpStatusCode \<noteq> 200 then
                    (case CloudWatchLogger_send send
                            (PutLogEventsCommand logGroupName logStreamName
                               (Events logEvents)) st2 of
                       (Inl error, st3) \<Rightarrow> (Inl (put_failed error), st3)
                     | (Inr result, st3) \<Rightarrow> (Inr (), st3))
                  else (Inr (), st2))))"

text \<open>
  \<^verbatim>\<open>logError\<close> (lines 350-372): a \<^verbatim>\<open>PutLogEventsCommand\<close> with the one diagnostic event is
  sent and the promise dropped. The \<^verbatim>\<open>try\<close> around the call sees no rejection of that
  promise: when the remote side answers with an error, the error is an unhandled
  rejection, recorded here. What the runtime then does with it is not part of the model.
\<close>

definition CloudWatchLogger_logError ::
  "'c remote \<Rightarrow> string \<Rightarrow> string \<Rightarrow> diagnostic \<Rightarrow> 'c logger \<Rightarrow> 'c logger" where
  "CloudWatchLogger_logError send groupName streamName log st =
     (case CloudWatchLogger_send send
             (PutLogEventsCommand groupName streamName (Diagnostic log)) st of
        (Inl error, st1) \<Rightarrow> st1\<lparr>unhandled := unhandled st1 @ [error]\<rparr>
      | (Inr result, st1) \<Rightarrow> st1)"

text \<open>
  The \<^verbatim>\<open>while (logs.length)\<close> loop of \<^verbatim>\<open>_flush\<close> (lines 276-288): \<^verbatim>\<open>logs.splice(0, half)\<close>
  takes the first \<open>half\<close> events off the batch, they are clipped when the error caught
  by the enclosing \<^verbatim>\<open>catch\<close> is an \<^verbatim>\<open>InvalidParameterException\<close>, and sent. An error thrown
  by \<^verbatim>\<open>putEventLogs\<close> leaves the loop. The loop may not end (with \<open>half = 0\<close> it sends
  nothing and removes nothing), so not returning is the value \<open>None\<close>.
\<close>

partial_function (option) retry_loop ::
  "'c remote \<Rightarrow> js_error \<Rightarrow> nat \<Rightarrow> string \<Rightarrow> string \<Rightarrow> Log list \<Rightarrow> 'c logger
     \<Rightarrow> ((js_error + unit) \<times> 'c logger) option" where
  "retry_loop send error half groupName streamName logs st =
     (if logs = [] then Some (Inr (), st)
      else
        (let partial = take half logs;
             partial' = (if isInvalidParameterException error then map clip_record partial
                         else partial)
         in case CloudWatchLogger_putEventLogs send groupName streamName partial' st of
              (Inl error', st1) \<Rightarrow> Some (Inl error', st1)
            | (Inr u, st1) \<Rightarrow>
                retry_loop send error half groupName streamName (drop half logs) st1))"

text \<open>
  The body of the \<^verbatim>\<open>for\<close> loop of \<^verbatim>\<open>_flush\<close> (lines 250-300) for one entry.
  \<^verbatim>\<open>Math.ceil(logs.length / 2)\<close> is \<open>(length logs + 1) div 2\<close>.
\<close>

definition logsRawTotalSize :: "Log list \<Rightarrow> nat" where
  "logsRawTotalSize logs = foldl (\<lambda>acc log. acc + byteLength (message log)) 0 logs"

definition report_flushing :: "'c remote \<Rightarrow> js_error \<Rightarrow> 'c logger \<Rightarrow> 'c logger" where
  "report_flushing send error st =
     CloudWatchLogger_logError send ''cloudwatch_logger'' ''errors'' (Flushing error)
       (st\<lparr>console := console st @ [ConsoleError error]\<rparr>)"

definition flush_entry ::
  "'c remote \<Rightarrow> string \<times> string \<times> Log list \<Rightarrow> 'c logger \<Rightarrow> 'c logger option" where
  "flush_entry send entry st =
     (case entry of (groupName, streamName, logs) \<Rightarrow>
        (case CloudWatchLogger_putEventLogs send groupName streamName logs st of
           (Inr u, st1) \<Rightarrow> Some st1
         | (Inl error, st1) \<Rightarrow>
             (let st2 = st1\<lparr>console := console st1 @ [ConsoleError error]\<rparr>;
                  st3 = CloudWatchLogger_logError send ''cloudwatch_logger'' ''errors''
                          (WillRetry error groupName streamName (length logs)
                             (logsRawTotalSize logs)) st2
              in if logs = [] then Some st3
                 else
                   (let half = (length logs + 1) div 2
                    in case retry_loop send error half groupName streamName logs st3 of
                         None \<Rightarrow> None
                       | Some (Inr u, st4) \<Rightarrow> Some st4
                       | Some (Inl error', st4) \<Rightarrow> Some (report_flushing send error' st4)))))"

text \<open>\<^verbatim>\<open>_flush(entries)\<close>: the entries one after the other.\<close>

fun CloudWatchLogger_flush_entries ::
  "'c remote \<Rightarrow> (string \<times> string \<times> Log list) list \<Rightarrow> 'c logger \<Rightarrow> 'c logger option" where
  "CloudWatchLogger_flush_entries send [] st = Some st"
| "CloudWatchLogger_flush_entries send (entry # entries) st =
     (case flush_entry send entry st of
        None \<Rightarrow> None
      | Some st1 \<Rightarrow> CloudWatchLogger_flush_entries send entries st1)"

text \<open>
  \<^verbatim>\<open>flush()\<close> as \<^verbatim>\<open>log\<close> and the timer call it, without awaiting its promise: the buffers
  are drained at once and the drained entries go to a \<^verbatim>\<open>_flush\<close> that runs in the
  background.
\<close>

definition CloudWatchLogger_flush_start :: "'c logger \<Rightarrow> 'c logger" where
  "CloudWatchLogger_flush_start st =
     (let (entries, bufs) = getOrderedLogs (this_bufferedLogs st)
      in st\<lparr>this_bufferedLogs := bufs, background := background st @ [entries]\<rparr>)"

text \<open>
  \<^verbatim>\<open>log\<close> (lines 306-348). The result is the returned \<^verbatim>\<open>Error\<close> (or \<^verbatim>\<open>undefined\<close>) and the
  state. Under \<^verbatim>\<open>console\<close> the message goes to \<^verbatim>\<open>console.info\<close>, parsed as JSON when it
  parses and raw otherwise; the line keeps the message.
\<close>

definition CloudWatchLogger_log ::
  "string \<Rightarrow> string \<Rightarrow> Log \<Rightarrow> 'c logger \<Rightarrow> js_error option \<times> 'c logger" where
  "CloudWatchLogger_log logGroupName logStreamName log st =
     (let st1 = (if reachedBufferLimits (this_bufferedLogs st) logGroupName logStreamName log
                 then CloudWatchLogger_flush_start st else st);
          push = (\<lambda>log'. st1\<lparr>this_bufferedLogs :=
                               pushLog logGroupName logStreamName log' (this_bufferedLogs st1)\<rparr>)
      in if CloudWatchLogger_logEventExceedsSize log then
           (case overSizedMessageAction st1 of
              ActionClip \<Rightarrow>
                (None, push \<lparr>timestamp = timestamp log, message = clip_message (message log)\<rparr>)
            | ActionError \<Rightarrow> (Some (Error ''Log event exceeds size limit: 256Kb'' None), st1)
            | ActionConsole \<Rightarrow> (None, st1\<lparr>console := console st1 @ [ConsoleInfo (message log)]\<rparr>))
         else (None, push log))"

section \<open>Vocabulary of the statements\<close>

text \<open>Whether a name contains the separator of the keys.\<close>

fun has_separator :: "string \<Rightarrow> bool" where
  "has_separator [] = False"
| "has_separator (c # cs) = (take (length separator) (c # cs) = separator \<or> has_separator cs)"

text \<open>What \<^verbatim>\<open>getOrderedLogs\<close> makes of one entry of the map, and what it leaves in its place.\<close>

definition triple_of :: "string \<times> Log list \<Rightarrow> string option \<times> string option \<times> Log list" where
  "triple_of kv =
     (element (js_split separator (fst kv)) 0, element (js_split separator (fst kv)) 1,
      sort_key timestamp (snd kv))"

definition emptied :: "string \<times> Log list \<Rightarrow> string \<times> Log list" where
  "emptied kv = (fst kv, [])"

text \<open>
  A remote side that refuses every command, one that rejects every
  \<^verbatim>\<open>PutLogEventsCommand\<close> as invalid, and one that is unavailable for every
  \<^verbatim>\<open>PutLogEventsCommand\<close>.
\<close>

definition access_denied :: "unit remote" where
  "access_denied cmd c = (Inl (ServiceException ''AccessDeniedException''), c)"

definition rejects_batches :: "unit remote" where
  "rejects_batches cmd c =
     (case cmd of
        PutLogEventsCommand g s events \<Rightarrow> (Inl (ServiceException ''InvalidParameterException''), c)
      | _ \<Rightarrow> (Inr 200, c))"

definition put_unavailable :: "unit remote" where
  "put_unavailable cmd c =
     (case cmd of
        PutLogEventsCommand g s events \<Rightarrow>
          (Inl (ServiceException ''ServiceUnavailableException''), c)
      | _ \<Rightarrow> (Inr 200, c))"

text \<open>Every batch of events sent to the destination is answered with an error.\<close>

definition puts_fail :: "'c remote \<Rightarrow> string \<Rightarrow> string \<Rightarrow> bool" where
  "puts_fail send g s = (\<forall>events c. isl (fst (send (PutLogEventsCommand g s (Events events)) c)))"

text \<open>The diagnostic records among the commands sent.\<close>

fun diagnostics_of :: "command list \<Rightarrow> diagnostic list" where
  "diagnostics_of [] = []"
| "diagnostics_of (PutLogEventsCommand g s (Diagnostic d) # cmds) = d # diagnostics_of cmds"
| "diagnostics_of (cmd # cmds) = diagnostics_of cmds"

text \<open>What a call of the provisioning and delivery methods leaves alone.\<close>

definition frame :: "'c logger \<Rightarrow> 'c logger \<Rightarrow> bool" where
  "frame st st' =
     (attempts st' = attempts st \<and> console st' = console st
      \<and> this_bufferedLogs st' = this_bufferedLogs st \<and> background st' = background st
      \<and> diagnostics_of (sent st') = diagnostics_of (sent st))"

text \<open>A logger right after its construction, and the events of the examples.\<close>

definition fresh_logger :: "oversized_action \<Rightarrow> unit logger" where
  "fresh_logger action =
     CloudWatchLogger_new () \<lparr>next_handle = 0, active = []\<rparr>
       \<lparr>cfg_flushInterval = 1000, cfg_overSizedMessageAction = action\<rparr>"

definition ev :: "int \<Rightarrow> Log" where
  "ev t = \<lparr>timestamp = t, message = [0x65]\<rparr>"

text \<open>
  262117 times the letter a and then e with an acute accent (two bytes in UTF-8), 262119
  bytes in all; and what clipping makes of it.
\<close>

definition accented :: jsstring where
  "accented = replicate 262117 0x61 @ [0xE9]"

definition accented_clipped :: jsstring where
  "accented_clipped = replicate 262117 0x61 @ [0xFFFD]"

text \<open>An event of 262119 letters a, and one of exactly 262118.\<close>

definition oversized :: Log where
  "oversized = \<lparr>timestamp = 1, message = replicate 262119 0x61\<rparr>"

definition at_limit :: Log where
  "at_limit = \<lparr>timestamp = 0, message = replicate 262118 0x61\<rparr>"

section \<open>Sizes of the example messages\<close>

lemma Buffer_from_append: "Buffer_from (xs @ ys) = Buffer_from xs @ Buffer_from ys"
  by (simp add: Buffer_from_def)

lemma Buffer_from_replicate_ascii: "c < 0x80 \<Longrightarrow> Buffer_from (replicate n c) = replicate n c"
  by (induction n) (simp_all add: Buffer_from_def utf8_char_def)

lemma byteLength_append: "byteLength (xs @ ys) = byteLength xs + byteLength ys"
  by (simp add: byteLength_def Buffer_from_append)

lemma byteLength_replicate_ascii: "c < 0x80 \<Longrightarrow> byteLength (replicate n c) = n"
  by (simp add: byteLength_def Buffer_from_replicate_ascii)

lemma utf8_decode_replicate_ascii:
  "c < 0x80 \<Longrightarrow>
   utf8_decode 0 0 0x80 0xBF (replicate n c @ bs) = replicate n c @ utf8_decode 0 0 0x80 0xBF bs"
  by (induction n) simp_all

lemma MAX_EVENT_SIZE: "CLOUDWATCH_MAX_EVENT_SIZE = 262118"
  by (simp add: CLOUDWATCH_MAX_EVENT_SIZE_def CLOUDWATCH_FIXED_EVENT_PREFIX_def)

lemma clip_message_accented: "clip_message accented = accented_clipped"
  by (simp add: clip_message_def accented_def accented_clipped_def toString_def
      Buffer_from_append Buffer_from_replicate_ascii utf8_decode_replicate_ascii MAX_EVENT_SIZE)
     (simp add: Buffer_from_def utf8_char_def)

lemma byteLength_accented: "byteLength accented = 262119"
  by (simp add: accented_def byteLength_append byteLength_replicate_ascii)
     (simp add: byteLength_def Buffer_from_def utf8_char_def)

lemma byteLength_accented_clipped: "byteLength accented_clipped = 262120"
  by (simp add: accented_clipped_def byteLength_append byteLength_replicate_ascii)
     (simp add: byteLength_def Buffer_from_def utf8_char_def)

lemma clip_record_oversized:
  "clip_record oversized = \<lparr>timestamp = 1, message = replicate 262118 0x61\<rparr>"
  using utf8_decode_replicate_ascii [of "0x61" 262118 "[]"]
  by (simp add: clip_record_def clip_message_def oversized_def toString_def
      Buffer_from_replicate_ascii MAX_EVENT_SIZE)

lemma oversized_neq: "oversized \<noteq> \<lparr>timestamp = 1, message = replicate 262118 0x61\<rparr>"
proof
  assume "oversized = \<lparr>timestamp = 1, message = replicate 262118 0x61\<rparr>"
  then have "length (message oversized)
               = length (message \<lparr>timestamp = 1, message = replicate 262118 (0x61::nat)\<rparr>)"
    by (rule arg_cong)
  then show False by (simp add: oversized_def)
qed

section \<open>The limit predicates\<close>

lemma CloudWatchLogger_logEventExceedsSize_iff:
  "CloudWatchLogger_logEventExceedsSize log = (byteLength (message log) > 2 ^ 18 - 26)"
  by (simp add: CloudWatchLogger_logEventExceedsSize_def CLOUDWATCH_MAX_EVENT_SIZE_def
      CLOUDWATCH_FIXED_EVENT_PREFIX_def)

lemma logEventExceedsSize_iff:
  "logEventExceedsSize log = (byteLength (message log) \<ge> 2 ^ 18 - 26)"
  by (simp add: logEventExceedsSize_def CLOUDWATCH_MAX_EVENT_SIZE_def
      CLOUDWATCH_FIXED_EVENT_PREFIX_def)

text \<open>
  Claim C7. The size predicate is true exactly when the message is strictly longer than
  262118 bytes. \<^verbatim>\<open>logEventExceedsSize\<close> of the module compares with \<^verbatim>\<open>>=\<close>: for a message of
  exactly 262118 bytes it answers true, where the claim (and the method of
  \<^verbatim>\<open>CloudWatchLogger\<close>, which compares with \<^verbatim>\<open>>\<close>) says false.
\<close>

theorem logEventExceedsSize_at_the_limit:
  "byteLength (message at_limit) = 262118
   \<and> CLOUDWATCH_MAX_EVENT_SIZE = 262118
   \<and> logEventExceedsSize at_limit
   \<and> \<not> CloudWatchLogger_logEventExceedsSize at_limit"
  by (simp add: logEventExceedsSize_def CloudWatchLogger_logEventExceedsSize_def at_limit_def
      byteLength_replicate_ascii MAX_EVENT_SIZE)

lemma foldl_add_sum:
  "foldl (\<lambda>acc x. acc + f x + k) (a::nat) xs = a + sum_list (map (\<lambda>x. f x + k) xs)"
  by (induction xs arbitrary: a) simp_all

lemma reachedBufferLimits_iff:
  "reachedBufferLimits bufs logGroup logStream newLog =
     (\<exists>logs. map_of bufs (buffer_key logGroup logStream) = Some logs
        \<and> (length logs + 1 \<ge> 10000
           \<or> sum_list (map (\<lambda>log. byteLength (message log) + 26) logs)
               + (byteLength (message newLog) + 26) \<ge> 2 ^ 20))"
  by (cases "map_of bufs (buffer_key logGroup logStream)")
     (simp_all add: reachedBufferLimits_def foldl_add_sum CLOUDWTACH_MAX_BUFFER_LENGTH_def
        CLOUDWATCH_MAX_BUFFER_SIZE_def CLOUDWATCH_FIXED_EVENT_PREFIX_def)

text \<open>
  Claim C5. The buffer-limit predicate counts every event with the 26 bytes of overhead.
  \<^verbatim>\<open>reachedBufferLimits\<close> of the earlier revision of the module adds the message lengths
  alone: with three events of 262118 bytes buffered and a fourth one offered, the total
  with overhead is \<open>4 * (262118 + 26) = 2 ^ 20\<close>, the limit is reached and the claim says
  true (as the later revision answers), but the earlier revision answers false.
\<close>

theorem reachedBufferLimits_r1_ignores_overhead:
  "\<not> reachedBufferLimits_r1 [(''g{::}s'', [at_limit, at_limit, at_limit])] ''g'' ''s'' at_limit
   \<and> reachedBufferLimits [(''g{::}s'', [at_limit, at_limit, at_limit])] ''g'' ''s'' at_limit
   \<and> 4 * (byteLength (message at_limit) + CLOUDWATCH_FIXED_EVENT_PREFIX)
       = CLOUDWATCH_MAX_BUFFER_SIZE"
  by (simp add: reachedBufferLimits_r1_def reachedBufferLimits_def buffer_key_def separator_def
      at_limit_def byteLength_replicate_ascii CLOUDWATCH_MAX_BUFFER_SIZE_def
      CLOUDWTACH_MAX_BUFFER_LENGTH_def CLOUDWATCH_FIXED_EVENT_PREFIX_def)

section \<open>Draining the buffers\<close>

lemma update_middle:
  "k \<notin> fst ` set ps \<Longrightarrow> AList.update k v (ps @ (k, v') # qs) = ps @ (k, v) # qs"
  by (induction ps) auto

lemma getOrderedLogs_loop:
  "distinct (map fst (pre @ xs)) \<Longrightarrow>
   foldl (\<lambda>(all, bufs) (key, value).
              (let parts = js_split separator key
               in (all @ [(element parts 0, element parts 1, sort_key timestamp value)],
                   AList.update key [] bufs)))
       (all, map emptied pre @ xs) xs
   = (all @ map triple_of xs, map emptied pre @ map emptied xs)"
proof (induction xs arbitrary: all pre)
  case Nil
  then show ?case by simp
next
  case (Cons kv xs)
  obtain k v where kv: "kv = (k, v)" by (cases kv)
  have "fst ` set (map emptied pre) = fst ` set pre"
    by (simp add: image_image emptied_def)
  with Cons.prems have notin: "k \<notin> fst ` set (map emptied pre)"
    by (simp add: kv)
  have upd: "AList.update k [] (map emptied pre @ (k, v) # xs) = map emptied (pre @ [kv]) @ xs"
    using update_middle [OF notin] by (simp add: kv emptied_def)
  from Cons.prems have d: "distinct (map fst ((pre @ [kv]) @ xs))" by simp
  show ?case
    using Cons.IH [OF d, of "all @ [triple_of kv]"]
    by (simp add: kv upd [unfolded kv] triple_of_def Let_def)
qed

lemma getOrderedLogs_eq:
  "distinct (map fst bufs) \<Longrightarrow> getOrderedLogs bufs = (map triple_of bufs, map emptied bufs)"
  using getOrderedLogs_loop [of "[]" bufs "[]"] by (simp add: getOrderedLogs_def)

lemma js_split_no_separator: "\<not> has_separator s \<Longrightarrow> js_split separator s = [s]"
  by (induction s) (auto simp: separator_def)

lemma js_split_key:
  "\<not> has_separator g \<Longrightarrow> js_split separator (g @ separator @ s) = g # js_split separator s"
proof (induction g)
  case Nil
  show ?case by (simp add: separator_def)
next
  case (Cons c g)
  then have a: "take (length separator) (c # g) \<noteq> separator" and b: "\<not> has_separator g"
    by auto
  have neq: "take (length separator) (c # g @ separator @ s) \<noteq> separator"
  proof (cases "3 \<le> length g")
    case True
    then show ?thesis using a by (simp add: separator_def)
  next
    case False
    then consider "g = []" | x where "g = [x]" | x y where "g = [x, y]"
      by (cases g; cases "tl g"; cases "tl (tl g)") auto
    then show ?thesis by cases (auto simp: separator_def)
  qed
  show ?case using Cons.IH [OF b] neq by simp
qed

lemma triple_of_key:
  assumes "\<not> has_separator g" and "\<not> has_separator s"
  shows "triple_of (buffer_key g s, logs) = (Some g, Some s, sort_key timestamp logs)"
  using js_split_key [OF assms(1), of s] js_split_no_separator [OF assms(2)]
  by (simp add: triple_of_def buffer_key_def element_def)

lemma map_fst_emptied: "map fst (map emptied bufs) = map fst bufs"
  by (simp add: emptied_def)

lemma triple_of_emptied:
  "triple_of (emptied kv)
     = (element (js_split separator (fst kv)) 0, element (js_split separator (fst kv)) 1, [])"
  by (simp add: triple_of_def emptied_def)

text \<open>
  Claim C1, as amended. For every state of the buffer map, \<^verbatim>\<open>getOrderedLogs\<close> returns one
  triple for every buffer of the map, the empty ones included, in the order of the map.
  The events of each triple are those of its buffer sorted by timestamp, events of equal
  timestamp in their order of insertion; group and stream are the two names the key was
  built from, when neither holds the separator. The call leaves every buffer empty, so a
  second drain right after it returns no event, and nothing that was buffered is missing
  from the first.
\<close>

theorem getOrderedLogs_drains_every_buffer:
  assumes "distinct (map fst bufs)"
  shows "\<exists>all bufs'. getOrderedLogs bufs = (all, bufs')
     \<and> length all = length bufs
     \<and> bufs' = map emptied bufs
     \<and> (\<forall>i<length bufs. \<exists>g s logs. all ! i = (g, s, logs)
           \<and> sorted (map timestamp logs)
           \<and> (\<forall>t. filter (\<lambda>e. timestamp e = t) logs
                    = filter (\<lambda>e. timestamp e = t) (snd (bufs ! i)))
           \<and> mset logs = mset (snd (bufs ! i))
           \<and> (\<forall>gn sn. fst (bufs ! i) = buffer_key gn sn \<and> \<not> has_separator gn
                  \<and> \<not> has_separator sn \<longrightarrow> g = Some gn \<and> s = Some sn))
     \<and> fst (getOrderedLogs bufs')
         = map (\<lambda>kv. (element (js_split separator (fst kv)) 0,
                       element (js_split separator (fst kv)) 1, [])) bufs"
proof -
  have first: "getOrderedLogs bufs = (map triple_of bufs, map emptied bufs)"
    using assms by (rule getOrderedLogs_eq)
  have "distinct (map fst (map emptied bufs))"
    using assms by (simp only: map_fst_emptied)
  then have second: "fst (getOrderedLogs (map emptied bufs))
      = map (\<lambda>kv. (element (js_split separator (fst kv)) 0,
                    element (js_split separator (fst kv)) 1, [])) bufs"
    by (simp add: getOrderedLogs_eq triple_of_emptied)
  have each: "\<exists>g s logs. map triple_of bufs ! i = (g, s, logs)
           \<and> sorted (map timestamp logs)
           \<and> (\<forall>t. filter (\<lambda>e. timestamp e = t) logs
                    = filter (\<lambda>e. timestamp e = t) (snd (bufs ! i)))
           \<and> mset logs = mset (snd (bufs ! i))
           \<and> (\<forall>gn sn. fst (bufs ! i) = buffer_key gn sn \<and> \<not> has_separator gn
                  \<and> \<not> has_separator sn \<longrightarrow> g = Some gn \<and> s = Some sn)"
    if i: "i < length bufs" for i
  proof -
    obtain k v where kv: "bufs ! i = (k, v)" by (cases "bufs ! i")
    have names: "element (js_split separator k) 0 = Some gn
                 \<and> element (js_split separator k) 1 = Some sn"
      if "k = buffer_key gn sn" "\<not> has_separator gn" "\<not> has_separator sn" for gn sn
      using triple_of_key [OF that(2,3), of v] that(1) by (simp add: triple_of_def)
    have "map triple_of bufs ! i
            = (element (js_split separator k) 0, element (js_split separator k) 1,
               sort_key timestamp v)"
      using i kv by (simp add: triple_of_def)
    then show ?thesis
      using names by (auto simp: kv sort_key_stable)
  qed
  show ?thesis
    using first second each by simp
qed

theorem getOrderedLogs_drains_every_buffer_witness:
  "distinct (map fst [(''g{::}s1'', [ev 300, ev 100, ev 200]), (''g{::}s2'', [])])
   \<and> getOrderedLogs [(''g{::}s1'', [ev 300, ev 100, ev 200]), (''g{::}s2'', [])]
       = ([(Some ''g'', Some ''s1'', [ev 100, ev 200, ev 300]), (Some ''g'', Some ''s2'', [])],
          [(''g{::}s1'', []), (''g{::}s2'', [])])"
proof -
  have d: "distinct (map fst [(''g{::}s1'', [ev 300, ev 100, ev 200]), (''g{::}s2'', [])])"
    by simp
  have n: "length (fst (getOrderedLogs
              [(''g{::}s1'', [ev 300, ev 100, ev 200]), (''g{::}s2'', [])])) = 2"
    using getOrderedLogs_drains_every_buffer [OF d] by auto
  show ?thesis
    using d n by (simp add: getOrderedLogs_def separator_def element_def ev_def)
qed

text \<open>
  Claim C1 as stated has the drain return the non-empty buffers. A buffer that is empty
  (one a \<^verbatim>\<open>Logger\<close> has just registered, or one the last drain emptied) is returned
  as well, with no events.
\<close>

theorem getOrderedLogs_returns_empty_buffers:
  "getOrderedLogs [(''g{::}s'', [])] = ([(Some ''g'', Some ''s'', [])], [(''g{::}s'', [])])"
  by (simp add: getOrderedLogs_def separator_def element_def)

section \<open>Configuration and the timer\<close>

text \<open>
  Claim C8. In every state in which a client exists, \<^verbatim>\<open>setup\<close> changes nothing: the
  client, the flush interval, its timer and every other variable of the module are as they
  were, and the call returns normally.
\<close>

theorem setup_config_second_call:
  "client st \<noteq> None \<Longrightarrow> setup_config cfg st = st"
  by (simp add: setup_config_def)

theorem setup_config_second_call_witness:
  "client (setup_config \<lparr>flushInterval = Some 250, region = ''me-south-1''\<rparr> initial_state)
     \<noteq> None
   \<and> setup_config \<lparr>flushInterval = Some 9000, region = ''eu-west-1''\<rparr>
        (setup_config \<lparr>flushInterval = Some 250, region = ''me-south-1''\<rparr> initial_state)
     = setup_config \<lparr>flushInterval = Some 250, region = ''me-south-1''\<rparr> initial_state
   \<and> flushInterval_value
        (setup_config \<lparr>flushInterval = Some 250, region = ''me-south-1''\<rparr> initial_state) = 250"
proof -
  have h: "client (setup_config \<lparr>flushInterval = Some 250, region = ''me-south-1''\<rparr>
             initial_state) \<noteq> None"
    by (simp add: setup_config_def initial_state_def FlushInterval_set_value_def setInterval_def)
  show ?thesis
    using h setup_config_second_call [OF h, of
        "\<lparr>flushInterval = Some 9000, region = ''eu-west-1''\<rparr>"]
    by (simp add: setup_config_def initial_state_def FlushInterval_set_value_def
        setInterval_def)
qed

text \<open>The first call sets the client and installs the timer with the configured interval.\<close>

lemma setup_config_first_call:
  assumes "client st = None"
  shows "client (setup_config cfg st) = Some cfg
     \<and> flushInterval_value (setup_config cfg st)
         = (case flushInterval cfg of Some v \<Rightarrow> v | None \<Rightarrow> 1000)
     \<and> flushInterval_interval (setup_config cfg st) = Some (next_handle (timers st))"
  using assms
  by (cases "flushInterval_interval st")
     (simp_all add: setup_config_def FlushInterval_set_value_def setInterval_def
        clearInterval_def split_def)

text \<open>
  The setter removes the timer it installed before, if any, and installs one with the new
  delay.
\<close>

lemma FlushInterval_set_value_timers:
  "active (timers (FlushInterval_set_value v st)) =
     filter (\<lambda>(h, d). Some h \<noteq> flushInterval_interval st) (active (timers st))
       @ [(next_handle (timers st), v)]"
  by (cases "flushInterval_interval st")
     (simp_all add: FlushInterval_set_value_def setInterval_def clearInterval_def split_def)

lemma CloudWatchLogger_set_flushInterval_timers:
  "active (this_timers (CloudWatchLogger_set_flushInterval v st)) =
     filter (\<lambda>(h, d). Some h \<noteq> flushIntervalInterval st) (active (this_timers st))
       @ [(next_handle (this_timers st), v)]"
  by (cases "flushIntervalInterval st")
     (simp_all add: CloudWatchLogger_set_flushInterval_def setInterval_def clearInterval_def
        split_def)

text \<open>
  Claim C9. An interval of 0 disables periodic flushing: no repeating timer runs. The
  setter calls \<^verbatim>\<open>setInterval\<close> whatever the value: with 0, as the first assignment of the
  module, through \<^verbatim>\<open>setup\<close> or through the constructor of \<^verbatim>\<open>CloudWatchLogger\<close> (whose
  configuration documents that 0 disables it), a repeating timer of delay 0 is installed.
\<close>

theorem flush_interval_zero_installs_a_timer:
  "active (timers (FlushInterval_set_value 0 initial_state)) = [(0, 0)]
   \<and> active (timers (setup_config \<lparr>flushInterval = Some 0, region = ''me-south-1''\<rparr>
                        initial_state)) = [(0, 0)]
   \<and> active (this_timers (CloudWatchLogger_new () \<lparr>next_handle = 0, active = []\<rparr>
                \<lparr>cfg_flushInterval = 0, cfg_overSizedMessageAction = ActionClip\<rparr>)) = [(0, 0)]"
  by (simp add: initial_state_def setup_config_def FlushInterval_set_value_def
      CloudWatchLogger_new_def CloudWatchLogger_set_flushInterval_def setInterval_def)

section \<open>Provisioning\<close>

text \<open>
  Claim C6, as amended. Once the client is initialised: when the group is in the registry,
  \<^verbatim>\<open>createLogGroup\<close> returns at once, sends nothing and changes nothing; otherwise it
  sends one create-group command. When the command succeeds, or fails with an
  already-exists error, the call succeeds and the group is entered in the registry, so
  that the next call returns at once. Any other error is raised wrapped in an error with
  the fixed message \<^verbatim>\<open>Create Log Group Failed\<close> and the error as its cause, and the
  registry is as before.
\<close>

theorem createLogGroup_contract:
  assumes "client st \<noteq> None"
  shows "(map_of (logGroups st) name \<noteq> None \<longrightarrow> createLogGroup send name st = (Inr (), st))
   \<and> (map_of (logGroups st) name = None \<longrightarrow>
        (\<exists>r c' res st'. send (CreateLogGroupCommand name) (remote_side st) = (r, c')
           \<and> createLogGroup send name st = (res, st')
           \<and> (case r of
                 Inr code \<Rightarrow> res = Inr ()
               | Inl error \<Rightarrow>
                   if isResourceAlreadyExistsException error then res = Inr ()
                   else res = Inl (Error ''Create Log Group Failed'' (Some error)))
           \<and> st' = st\<lparr>remote_side := c',
                      requests := requests st @ [CreateLogGroupCommand name],
                      logGroups := (if res = Inr () then AList.update name [] (logGroups st)
                                    else logGroups st)\<rparr>
           \<and> (res = Inr () \<longrightarrow> createLogGroup send name st' = (Inr (), st'))))"
proof -
  obtain r c' where s: "send (CreateLogGroupCommand name) (remote_side st) = (r, c')"
    by (cases "send (CreateLogGroupCommand name) (remote_side st)")
  have upd: "map_of (AList.update name [] (logGroups st)) name \<noteq> None"
    by (simp add: update_conv')
  show ?thesis
    using assms s upd
    by (cases r) (auto simp: createLogGroup_def client_send_def update_conv')
qed

theorem createLogGroup_contract_witness:
  "client (initial_state\<lparr>client := Some me_south\<rparr>) \<noteq> None
   \<and> createLogGroup access_denied ''a''
       (initial_state\<lparr>client := Some me_south, logGroups := [(''a'', [])]\<rparr>)
       = (Inr (), initial_state\<lparr>client := Some me_south, logGroups := [(''a'', [])]\<rparr>)
   \<and> createLogGroup rejects_batches ''a'' (initial_state\<lparr>client := Some me_south\<rparr>)
       = (Inr (), initial_state\<lparr>client := Some me_south, logGroups := [(''a'', [])],
                                requests := [CreateLogGroupCommand ''a'']\<rparr>)"
proof -
  have h: "client (initial_state\<lparr>client := Some me_south\<rparr>) \<noteq> None"
    by simp
  from createLogGroup_contract [OF h, of "''a''" rejects_batches]
  show ?thesis
    by (simp add: createLogGroup_def client_send_def rejects_batches_def initial_state_def)
qed

text \<open>
  Claim C6 as stated has the raised error carry the resource name. The error raised for
  group \<^verbatim>\<open>a\<close> is the one raised for group \<^verbatim>\<open>b\<close>: a fixed message and the cause.
\<close>

theorem createLogGroup_error_names_no_resource:
  "fst (createLogGroup access_denied ''a'' (initial_state\<lparr>client := Some me_south\<rparr>))
     = Inl (Error ''Create Log Group Failed'' (Some (ServiceException ''AccessDeniedException'')))
   \<and> fst (createLogGroup access_denied ''b'' (initial_state\<lparr>client := Some me_south\<rparr>))
     = fst (createLogGroup access_denied ''a'' (initial_state\<lparr>client := Some me_south\<rparr>))"
  by (simp add: createLogGroup_def client_send_def access_denied_def initial_state_def
      isResourceAlreadyExistsException_def)

section \<open>Delivery and the retry after a failure\<close>

lemma diagnostics_of_append: "diagnostics_of (xs @ ys) = diagnostics_of xs @ diagnostics_of ys"
  by (induction xs rule: diagnostics_of.induct) auto

lemma frame_refl: "frame st st"
  by (simp add: frame_def)

lemma frame_trans: "frame a b \<Longrightarrow> frame b c \<Longrightarrow> frame a c"
  by (simp add: frame_def)

lemma send_frame:
  "CloudWatchLogger_send send cmd st = (r, st') \<Longrightarrow> diagnostics_of [cmd] = [] \<Longrightarrow> frame st st'"
  by (auto simp: CloudWatchLogger_send_def frame_def diagnostics_of_append split: prod.splits)

lemma push_stream_frame: "frame st (push_stream g s st)"
  by (simp add: push_stream_def frame_def split: option.splits)

lemma createLogGroup_frame:
  "CloudWatchLogger_createLogGroup send g st = (r, st') \<Longrightarrow> frame st st'"
  by (auto simp: CloudWatchLogger_createLogGroup_def frame_def
      split: if_splits prod.splits sum.splits dest!: send_frame)

lemma createLogStream_catch_frame:
  "createLogStream_catch g s e st = (r, st') \<Longrightarrow> frame st st'"
  using push_stream_frame [of st g s]
  by (auto simp: createLogStream_catch_def frame_refl split: if_splits)

lemma createLogStream_frame:
  assumes "CloudWatchLogger_createLogStream send g s st = (r, st')"
  shows "frame st st'"
proof -
  obtain r1 st1 where g: "CloudWatchLogger_createLogGroup send g st = (r1, st1)"
    by (cases "CloudWatchLogger_createLogGroup send g st")
  have f1: "frame st st1" using g by (rule createLogGroup_frame)
  obtain r2 st2 where s: "CloudWatchLogger_send send (CreateLogStreamCommand g s) st1 = (r2, st2)"
    by (cases "CloudWatchLogger_send send (CreateLogStreamCommand g s) st1")
  have f2: "frame st1 st2" using s by (rule send_frame) simp
  have f3: "\<And>e r st3. createLogStream_catch g s e st1 = (r, st3) \<Longrightarrow> frame st st3"
    using f1 createLogStream_catch_frame frame_trans by blast
  have f4: "\<And>e r st3. createLogStream_catch g s e st2 = (r, st3) \<Longrightarrow> frame st st3"
    using f1 f2 createLogStream_catch_frame frame_trans by blast
  have f5: "frame st (push_stream g s st2)"
    using f1 f2 push_stream_frame frame_trans by blast
  show ?thesis
    using assms g s f1 f3 f4 f5
    by (auto simp: CloudWatchLogger_createLogStream_def split: sum.splits if_splits)
qed

lemma putEventLogs_frame:
  assumes "CloudWatchLogger_putEventLogs send g s events st = (r, st')" and "events \<noteq> []"
  shows "frame (st\<lparr>attempts := attempts st @ [(g, s, events)]\<rparr>) st'"
proof -
  let ?st0 = "st\<lparr>attempts := attempts st @ [(g, s, events)]\<rparr>"
  obtain r1 st1 where c: "CloudWatchLogger_createLogStream send g s ?st0 = (r1, st1)"
    by (cases "CloudWatchLogger_createLogStream send g s ?st0")
  have f1: "frame ?st0 st1" using c by (rule createLogStream_frame)
  obtain r2 st2 where p: "CloudWatchLogger_send send (PutLogEventsCommand g s (Events events)) st1 = (r2, st2)"
    by (cases "CloudWatchLogger_send send (PutLogEventsCommand g s (Events events)) st1")
  have f2: "frame ?st0 st2" using f1 send_frame [OF p] frame_trans by fastforce
  obtain r3 st3 where q: "CloudWatchLogger_send send (PutLogEventsCommand g s (Events events)) st2 = (r3, st3)"
    by (cases "CloudWatchLogger_send send (PutLogEventsCommand g s (Events events)) st2")
  have f3: "frame ?st0 st3" using f2 send_frame [OF q] frame_trans by fastforce
  show ?thesis
    using assms c p q f1 f2 f3
    by (auto simp: CloudWatchLogger_putEventLogs_def split: sum.splits if_splits)
qed

lemma send_put_fails:
  assumes "puts_fail send g s"
  shows "\<exists>e st'. CloudWatchLogger_send send (PutLogEventsCommand g s (Events events)) st = (Inl e, st')"
proof -
  obtain r c' where a: "send (PutLogEventsCommand g s (Events events)) (this_client st) = (r, c')"
    by (cases "send (PutLogEventsCommand g s (Events events)) (this_client st)")
  with assms have "isl r"
    by (metis puts_fail_def fst_conv)
  then obtain e where "r = Inl e" by (cases r) auto
  with a show ?thesis by (simp add: CloudWatchLogger_send_def)
qed

lemma putEventLogs_fails:
  assumes "puts_fail send g s" and "events \<noteq> []"
  shows "\<exists>e st'. CloudWatchLogger_putEventLogs send g s events st = (Inl (put_failed e), st')"
proof -
  let ?st0 = "st\<lparr>attempts := attempts st @ [(g, s, events)]\<rparr>"
  obtain r1 st1 where c: "CloudWatchLogger_createLogStream send g s ?st0 = (r1, st1)"
    by (cases "CloudWatchLogger_createLogStream send g s ?st0")
  obtain e st2 where p: "CloudWatchLogger_send send (PutLogEventsCommand g s (Events events)) st1 = (Inl e, st2)"
    using send_put_fails [OF assms(1)] by blast
  show ?thesis
    using assms(2) c p
    by (cases r1) (auto simp: CloudWatchLogger_putEventLogs_def)
qed

text \<open>
  Whatever \<^verbatim>\<open>putEventLogs\<close> throws is the wrapping \<^verbatim>\<open>Error\<close>, never the exception of
  the remote side itself.
\<close>

lemma putEventLogs_error_is_wrapped:
  "CloudWatchLogger_putEventLogs send g s events st = (Inl e, st') \<Longrightarrow> \<exists>cause. e = put_failed cause"
  by (auto simp: CloudWatchLogger_putEventLogs_def split: if_splits prod.splits sum.splits)

lemma put_failed_not_invalid_parameter: "\<not> isInvalidParameterException (put_failed e)"
  by (simp add: put_failed_def isInvalidParameterException_def)

lemma retry_loop_Nil: "retry_loop send error half g s [] st = Some (Inr (), st)"
  by (subst retry_loop.simps) simp

lemma retry_loop_step:
  "logs \<noteq> [] \<Longrightarrow>
   retry_loop send error half g s logs st =
     (case CloudWatchLogger_putEventLogs send g s
             (if isInvalidParameterException error then map clip_record (take half logs)
              else take half logs) st of
        (Inl error', st1) \<Rightarrow> Some (Inl error', st1)
      | (Inr u, st1) \<Rightarrow> retry_loop send error half g s (drop half logs) st1)"
  by (subst retry_loop.simps) (simp add: Let_def)

text \<open>With a positive \<open>half\<close> the loop ends, whatever the remote side answers.\<close>

lemma retry_loop_terminates:
  "0 < half \<Longrightarrow> \<exists>r. retry_loop send error half g s logs st = Some r"
proof (induction logs arbitrary: st rule: length_induct)
  case (1 logs)
  show ?case
  proof (cases "logs = []")
    case True
    then show ?thesis by (simp add: retry_loop_Nil)
  next
    case False
    let ?p = "if isInvalidParameterException error then map clip_record (take half logs)
              else take half logs"
    obtain r st1 where p: "CloudWatchLogger_putEventLogs send g s ?p st = (r, st1)"
      by (cases "CloudWatchLogger_putEventLogs send g s ?p st")
    have shorter: "length (drop half logs) < length logs"
      using False "1.prems" by simp
    from "1.IH" shorter "1.prems"
    have "\<exists>r. retry_loop send error half g s (drop half logs) st1 = Some r"
      by blast
    then show ?thesis
      using False p by (cases r) (auto simp: retry_loop_step)
  qed
qed

lemma flush_entry_terminates: "\<exists>st'. flush_entry send entry st = Some st'"
proof -
  obtain g s logs where e: "entry = (g, s, logs)" by (cases entry)
  obtain r st1 where p: "CloudWatchLogger_putEventLogs send g s logs st = (r, st1)"
    by (cases "CloudWatchLogger_putEventLogs send g s logs st")
  show ?thesis
  proof (cases r)
    case (Inr u)
    then show ?thesis using e p by (simp add: flush_entry_def)
  next
    case (Inl error)
    show ?thesis
    proof (cases "logs = []")
      case True
      then show ?thesis using e p Inl by (simp add: flush_entry_def Let_def)
    next
      case False
      then have "0 < (length logs + 1) div 2" by (cases logs) auto
      from retry_loop_terminates [OF this]
      obtain r' where "retry_loop send error ((length logs + 1) div 2) g s logs
          (CloudWatchLogger_logError send ''cloudwatch_logger'' ''errors''
             (WillRetry error g s (length logs) (logsRawTotalSize logs))
             (st1\<lparr>console := console st1 @ [ConsoleError error]\<rparr>)) = Some r'"
        by blast
      then show ?thesis
        using e p Inl False
        by (cases r'; cases "fst r'") (auto simp: flush_entry_def Let_def)
    qed
  qed
qed

text \<open>\<^verbatim>\<open>_flush\<close> ends for every list of entries and every remote side.\<close>

lemma flush_entries_terminates:
  "\<exists>st'. CloudWatchLogger_flush_entries send entries st = Some st'"
proof (induction entries arbitrary: st)
  case Nil
  show ?case by simp
next
  case (Cons entry entries)
  obtain st1 where "flush_entry send entry st = Some st1"
    using flush_entry_terminates by blast
  then show ?case using Cons.IH [of st1] by simp
qed

lemma logError_effect:
  "attempts (CloudWatchLogger_logError send g s d st) = attempts st
   \<and> console (CloudWatchLogger_logError send g s d st) = console st
   \<and> this_bufferedLogs (CloudWatchLogger_logError send g s d st) = this_bufferedLogs st
   \<and> background (CloudWatchLogger_logError send g s d st) = background st
   \<and> diagnostics_of (sent (CloudWatchLogger_logError send g s d st))
       = diagnostics_of (sent st) @ [d]"
  by (simp add: CloudWatchLogger_logError_def CloudWatchLogger_send_def split_def Let_def
      diagnostics_of_append split: sum.splits)

lemma fresh_logger_simps:
  "fresh_logger action =
     \<lparr>this_client = (), overSizedMessageAction = action, this_flushInterval = 1000,
      flushIntervalInterval = Some 0, this_logGroups = [], this_bufferedLogs = [],
      this_timers = \<lparr>next_handle = 1, active = [(0, 1000)]\<rparr>, console = [],
      unhandled = [], sent = [], attempts = [], background = []\<rparr>"
  by (simp add: fresh_logger_def CloudWatchLogger_new_def CloudWatchLogger_set_flushInterval_def
      setInterval_def)

lemma puts_fail_put_unavailable: "puts_fail put_unavailable g s"
  by (simp add: puts_fail_def put_unavailable_def)

lemmas flush_eval =
  flush_entry_def CloudWatchLogger_putEventLogs_def CloudWatchLogger_createLogStream_def
  CloudWatchLogger_createLogGroup_def CloudWatchLogger_send_def CloudWatchLogger_logError_def
  createLogStream_catch_def push_stream_def report_flushing_def retry_loop_step retry_loop_Nil
  isResourceAlreadyExistsException_def isInvalidParameterException_def put_failed_def
  fresh_logger_simps Let_def

text \<open>
  What \<^verbatim>\<open>_flush\<close> of \<^verbatim>\<open>CloudWatchLogger\<close> does with a non-empty batch of \<open>n\<close> events when
  every delivery to its destination fails: two delivery attempts and no more, the whole
  batch and then its first \<open>ceil(n / 2)\<close> events. The first failure is reported as one
  that will be retried, the second as the terminal one, on the console and as a diagnostic
  record each; nothing is put back into the buffers, and the flush returns.
\<close>

lemma CloudWatchLogger_flush_every_attempt_fails:
  assumes "puts_fail send g s" and "logs \<noteq> []"
  shows "\<exists>e1 e2 st'.
           CloudWatchLogger_flush_entries send [(g, s, logs)] st = Some st'
         \<and> attempts st' = attempts st @ [(g, s, logs), (g, s, take ((length logs + 1) div 2) logs)]
         \<and> console st' = console st @ [ConsoleError (put_failed e1), ConsoleError (put_failed e2)]
         \<and> diagnostics_of (sent st') = diagnostics_of (sent st)
              @ [WillRetry (put_failed e1) g s (length logs) (logsRawTotalSize logs),
                 Flushing (put_failed e2)]
         \<and> this_bufferedLogs st' = this_bufferedLogs st
         \<and> background st' = background st"
proof -
  let ?half = "(length logs + 1) div 2"
  from assms(2) have half: "take ?half logs \<noteq> []" by (cases logs) auto
  obtain e1 st1 where p1: "CloudWatchLogger_putEventLogs send g s logs st = (Inl (put_failed e1), st1)"
    using putEventLogs_fails [OF assms] by blast
  have f1: "frame (st\<lparr>attempts := attempts st @ [(g, s, logs)]\<rparr>) st1"
    using putEventLogs_frame [OF p1 assms(2)] .
  let ?st2 = "st1\<lparr>console := console st1 @ [ConsoleError (put_failed e1)]\<rparr>"
  let ?st3 = "CloudWatchLogger_logError send ''cloudwatch_logger'' ''errors''
                (WillRetry (put_failed e1) g s (length logs) (logsRawTotalSize logs)) ?st2"
  obtain e2 st4 where p2:
    "CloudWatchLogger_putEventLogs send g s (take ?half logs) ?st3 = (Inl (put_failed e2), st4)"
    using putEventLogs_fails [OF assms(1) half] by blast
  have f2: "frame (?st3\<lparr>attempts := attempts ?st3 @ [(g, s, take ?half logs)]\<rparr>) st4"
    using putEventLogs_frame [OF p2 half] .
  have loop: "retry_loop send (put_failed e1) ?half g s logs ?st3 = Some (Inl (put_failed e2), st4)"
    using assms(2) p2 by (simp add: retry_loop_step put_failed_not_invalid_parameter)
  have run: "CloudWatchLogger_flush_entries send [(g, s, logs)] st
               = Some (report_flushing send (put_failed e2) st4)"
    using p1 loop assms(2) by (simp add: flush_entry_def Let_def)
  let ?st' = "report_flushing send (put_failed e2) st4"
  have "attempts ?st' = attempts st @ [(g, s, logs), (g, s, take ?half logs)]"
    using f1 f2 by (simp add: report_flushing_def logError_effect frame_def)
  moreover have "console ?st'
      = console st @ [ConsoleError (put_failed e1), ConsoleError (put_failed e2)]"
    using f1 f2 by (simp add: report_flushing_def logError_effect frame_def)
  moreover have "diagnostics_of (sent ?st') = diagnostics_of (sent st)
              @ [WillRetry (put_failed e1) g s (length logs) (logsRawTotalSize logs),
                 Flushing (put_failed e2)]"
    using f1 f2 by (simp add: report_flushing_def logError_effect frame_def)
  moreover have "this_bufferedLogs ?st' = this_bufferedLogs st" "background ?st' = background st"
    using f1 f2 by (simp_all add: report_flushing_def logError_effect frame_def)
  ultimately show ?thesis using run by blast
qed

lemma CloudWatchLogger_retry_examples:
  "map_option attempts
     (CloudWatchLogger_flush_entries put_unavailable [(''g'', ''s'', [ev 1])]
        (fresh_logger ActionClip))
   = Some [(''g'', ''s'', [ev 1]), (''g'', ''s'', [ev 1])]"
  "map_option attempts
     (CloudWatchLogger_flush_entries put_unavailable [(''g'', ''s'', [ev 1, ev 2, ev 3])]
        (fresh_logger ActionClip))
   = Some [(''g'', ''s'', [ev 1, ev 2, ev 3]), (''g'', ''s'', [ev 1, ev 2])]"
  "map_option attempts
     (CloudWatchLogger_flush_entries put_unavailable
        [(''g'', ''s'', [ev 1, ev 2, ev 3, ev 4])] (fresh_logger ActionClip))
   = Some [(''g'', ''s'', [ev 1, ev 2, ev 3, ev 4]), (''g'', ''s'', [ev 1, ev 2])]"
  by (simp_all add: flush_eval put_unavailable_def)

text \<open>
  Claim C4. When the delivery failure is an \<^verbatim>\<open>InvalidParameterException\<close>, the events of
  the half are clipped before it is sent again. The remote side rejects the batch of an
  oversized event (262119 bytes) and a small one with that exception; \<^verbatim>\<open>_flush\<close> catches
  the \<^verbatim>\<open>Error\<close> that \<^verbatim>\<open>putEventLogs\<close> wrapped around it, the test
  \<^verbatim>\<open>error instanceof InvalidParameterException\<close> fails, and the half is sent again with
  the oversized event as it was, although clipping would have cut it to 262118 bytes.
\<close>

theorem invalid_parameter_retry_is_not_clipped:
  "map_option attempts
     (CloudWatchLogger_flush_entries rejects_batches [(''g'', ''s'', [oversized, ev 2])]
        (fresh_logger ActionClip))
   = Some [(''g'', ''s'', [oversized, ev 2]), (''g'', ''s'', [oversized])]
   \<and> map_option console
     (CloudWatchLogger_flush_entries rejects_batches [(''g'', ''s'', [oversized, ev 2])]
        (fresh_logger ActionClip))
   = Some [ConsoleError (put_failed (ServiceException ''InvalidParameterException'')),
           ConsoleError (put_failed (ServiceException ''InvalidParameterException''))]
   \<and> clip_record oversized = \<lparr>timestamp = 1, message = replicate 262118 0x61\<rparr>
   \<and> clip_record oversized \<noteq> oversized"
  using oversized_neq
  by (simp add: flush_eval rejects_batches_def clip_record_oversized)

text \<open>
  The loop does clip when it is handed the exception itself; \<^verbatim>\<open>_flush\<close> never hands it
  that (\<open>putEventLogs_error_is_wrapped\<close>, \<open>put_failed_not_invalid_parameter\<close>).
\<close>

lemma retry_loop_clips_on_the_bare_exception:
  "map_option (attempts \<circ> snd)
     (retry_loop rejects_batches (ServiceException ''InvalidParameterException'') 1
        ''g'' ''s'' [oversized, ev 2] (fresh_logger ActionClip))
   = Some [(''g'', ''s'', [\<lparr>timestamp = 1, message = replicate 262118 0x61\<rparr>])]"
  by (simp add: flush_eval rejects_batches_def clip_record_oversized)

section \<open>Oversized messages\<close>

text \<open>
  Claim C3. Under \<^verbatim>\<open>clip\<close> the buffered message is exactly 262118 bytes long. For a message
  of 262117 letters a followed by an accented e (262119 bytes), clipping cuts the two
  bytes of the last character in the middle and decodes the 262118 bytes again; the
  decoder puts U+FFFD (three bytes) in place of the broken character, and the message
  that is buffered is 262120 bytes long. That holds for \<^verbatim>\<open>log\<close> of \<^verbatim>\<open>CloudWatchLogger\<close>
  under \<^verbatim>\<open>clip\<close> and for \<^verbatim>\<open>addLog\<close> of the module with \<^verbatim>\<open>clipMessages\<close> set.
\<close>

theorem clip_leaves_message_over_the_limit:
  "byteLength accented = 262119
   \<and> CloudWatchLogger_log ''g'' ''s'' \<lparr>timestamp = 7, message = accented\<rparr> (fresh_logger ActionClip)
       = (None, (fresh_logger ActionClip)
                  \<lparr>this_bufferedLogs :=
                     [(''g{::}s'', [\<lparr>timestamp = 7, message = accented_clipped\<rparr>])]\<rparr>)
   \<and> run_immediates (snd (addLog ''g'' ''s'' \<lparr>timestamp = 7, message = accented\<rparr>
                            initial_state))
       = initial_state
           \<lparr>bufferedLogs := [(''g{::}s'', [\<lparr>timestamp = 7, message = accented_clipped\<rparr>])]\<rparr>
   \<and> byteLength accented_clipped = 262120
   \<and> CLOUDWATCH_MAX_EVENT_SIZE = 262118"
  by (simp add: CloudWatchLogger_log_def CloudWatchLogger_logEventExceedsSize_def
      addLog_def logEventExceedsSize_def run_immediates_def initial_state_def
      reachedBufferLimits_def pushLog_def buffer_key_def separator_def
      byteLength_accented byteLength_accented_clipped clip_message_accented
      fresh_logger_simps MAX_EVENT_SIZE)

text \<open>The other two policies, and clipping a message of plain letters.\<close>

lemma flush_start_action:
  "overSizedMessageAction (CloudWatchLogger_flush_start st) = overSizedMessageAction st
   \<and> console (CloudWatchLogger_flush_start st) = console st"
  by (simp add: CloudWatchLogger_flush_start_def split_def Let_def)

lemma log_error_policy:
  assumes "CloudWatchLogger_logEventExceedsSize log" and "overSizedMessageAction st = ActionError"
  shows "CloudWatchLogger_log g s log st
           = (Some (Error ''Log event exceeds size limit: 256Kb'' None),
              if reachedBufferLimits (this_bufferedLogs st) g s log
              then CloudWatchLogger_flush_start st else st)"
  using assms by (simp add: CloudWatchLogger_log_def flush_start_action)

lemma log_console_policy:
  assumes "CloudWatchLogger_logEventExceedsSize log" and "overSizedMessageAction st = ActionConsole"
  shows "CloudWatchLogger_log g s log st
           = (None,
              (if reachedBufferLimits (this_bufferedLogs st) g s log
               then CloudWatchLogger_flush_start st else st)
                \<lparr>console := console st @ [ConsoleInfo (message log)]\<rparr>)"
  using assms by (simp add: CloudWatchLogger_log_def flush_start_action)

lemma clip_message_ascii:
  assumes "c < 0x80" and "CLOUDWATCH_MAX_EVENT_SIZE \<le> n"
  shows "clip_message (replicate n c) = replicate CLOUDWATCH_MAX_EVENT_SIZE c"
  using assms utf8_decode_replicate_ascii [of c CLOUDWATCH_MAX_EVENT_SIZE "[]"]
  by (simp add: clip_message_def toString_def Buffer_from_replicate_ascii min_def)

section \<open>The retry of the module\<close>

lemma module_retry_loop_Nil: "module_retry_loop send half g s [] st = Some (Inr (), st)"
  by (subst module_retry_loop.simps) simp

lemma module_retry_loop_step:
  "logs \<noteq> [] \<Longrightarrow>
   module_retry_loop send half g s logs st =
     (case putEventLogs send g s (take half logs) st of
        (Inl error, st1) \<Rightarrow> Some (Inl error, st1)
      | (Inr u, st1) \<Rightarrow> module_retry_loop send half g s (drop half logs) st1)"
  by (subst module_retry_loop.simps) simp

text \<open>
  With a count of 0 every round takes no event off the batch and sends nothing: the loop
  does not end.
\<close>

lemma module_retry_loop_zero_never_ends:
  assumes "logs \<noteq> []"
  shows "module_retry_loop send 0 g s logs st = None"
proof (rule ccontr)
  assume "module_retry_loop send 0 g s logs st \<noteq> None"
  then obtain r where r: "module_retry_loop send 0 g s logs st = Some r" by auto
  have "half = 0 \<longrightarrow> logs \<noteq> [] \<longrightarrow> False"
    if run: "module_retry_loop send half g s logs st = Some r" for half g s logs st r
    by (rule module_retry_loop.raw_induct
          [where P = "\<lambda>send half g s logs st r. half = 0 \<longrightarrow> logs \<noteq> [] \<longrightarrow> False", OF _ run])
       (auto simp: putEventLogs_def split: if_splits)
  with r assms show False by blast
qed

lemma setup_me_south:
  "setup_config me_south initial_state =
     initial_state\<lparr>client := Some me_south, flushInterval_interval := Some 0,
                    timers := \<lparr>next_handle = 1, active = [(0, 1000)]\<rparr>\<rparr>"
  by (simp add: setup_config_def me_south_def initial_state_def FlushInterval_set_value_def
      setInterval_def)

text \<open>
  Claim C2. After a failed delivery the batch is split into halves by ceiling division and
  the halves are delivered one after the other, down to single events if need be, and the
  retry terminates. The retry of the module (\<^verbatim>\<open>part_002\<close>, lines 328-337) hands
  \<^verbatim>\<open>logs.length / 2\<close> to \<^verbatim>\<open>splice\<close> without rounding it up. For a batch of one event the
  count is 0 and the loop never ends, whatever the remote side answers. For a batch of
  three events it resends one event, not two: with the deliveries failing, the commands
  sent are the two that create group and stream and the batch of the first event alone.
  \<^verbatim>\<open>_flush\<close> of \<^verbatim>\<open>CloudWatchLogger\<close>, which rounds up, ends on the batch of one event and
  resends the first two events of three.
\<close>

theorem module_retry_rounds_down:
  "module_retry send g s [e] st = None
   \<and> map_option (requests \<circ> snd)
       (module_retry put_unavailable ''g'' ''s'' [ev 1, ev 2, ev 3]
          (setup_config me_south initial_state))
     = Some [CreateLogGroupCommand ''g'', CreateLogStreamCommand ''g'' ''s'',
             PutLogEventsCommand ''g'' ''s'' (Events [ev 1])]
   \<and> map_option attempts
       (CloudWatchLogger_flush_entries put_unavailable [(''g'', ''s'', [ev 1])]
          (fresh_logger ActionClip))
     = Some [(''g'', ''s'', [ev 1]), (''g'', ''s'', [ev 1])]
   \<and> map_option attempts
       (CloudWatchLogger_flush_entries put_unavailable [(''g'', ''s'', [ev 1, ev 2, ev 3])]
          (fresh_logger ActionClip))
     = Some [(''g'', ''s'', [ev 1, ev 2, ev 3]), (''g'', ''s'', [ev 1, ev 2])]"
proof -
  have one: "module_retry send g s [e] st = None"
    by (simp add: module_retry_def module_retry_loop_zero_never_ends)
  have three: "map_option (requests \<circ> snd)
       (module_retry put_unavailable ''g'' ''s'' [ev 1, ev 2, ev 3]
          (setup_config me_south initial_state))
     = Some [CreateLogGroupCommand ''g'', CreateLogStreamCommand ''g'' ''s'',
             PutLogEventsCommand ''g'' ''s'' (Events [ev 1])]"
    unfolding setup_me_south
    by (simp add: module_retry_def module_retry_loop_step putEventLogs_def createLogStream_def
        createLogGroup_def client_send_def module_push_stream_def put_unavailable_def
        initial_state_def)
  show ?thesis
    using one three by (simp add: flush_eval put_unavailable_def)
qed

end
